theory Spec2Isabelle
  imports Main "HOL-Library.Word" "HOL-Library.AList" "HOL-Library.Sublist"
begin

section \<open>Go values used by the route operations\<close>

text \<open>
  A Go \<open>error\<close> is used by the source only through its text (\<open>%s\<close>) and through the
  comparison with \<open>nil\<close>: it is the text of \<open>Error()\<close>, and \<open>error option\<close> is the
  possibly-nil value. A Go \<open>int\<close> status code is an \<open>int\<close>; \<open>int64\<close> is a 64-bit word.
  \<open>float64\<close> values are only carried around, never computed with.
\<close>

type_synonym go_error = string
type_synonym int64 = "64 word"
typedecl float64

text \<open>A function that can panic returns \<open>Panic\<close> with the text of the runtime error.\<close>

datatype 'a outcome = Return 'a | Panic string

subsection \<open>\<open>fmt.Sprintf\<close>: the verbs \<open>%d\<close> and \<open>%s\<close>\<close>

definition digit_char :: "nat \<Rightarrow> char" where
  "digit_char n = char_of (48 + n)"

function string_of_nat :: "nat \<Rightarrow> string" where
  "string_of_nat n =
     (if n < 10 then [digit_char n] else string_of_nat (n div 10) @ [digit_char (n mod 10)])"
  by pat_completeness auto
termination
  by (relation "measure (\<lambda>n. n)") auto

declare string_of_nat.simps [simp del]

text \<open>\<open>%d\<close> of a Go \<open>int\<close>: decimal digits, a minus sign in front of a negative number.\<close>

definition fmt_d :: "int \<Rightarrow> string" where
  "fmt_d i = (if i < 0 then CHR ''-'' # string_of_nat (nat (- i)) else string_of_nat (nat i))"

subsection \<open>The untyped record of the transport\<close>

text \<open>
  \<open>map[string]interface{}\<close> as the REST transport returns it: an object with string keys
  whose values are scalars, nested objects or arrays. The object is an association list;
  a Go map has each key once, and \<open>map_of\<close> reads the first entry of a key.
\<close>

datatype RawValue =
    RawNil
  | RawBool bool
  | RawString string
  | RawInt64 int64
  | RawFloat64 float64
  | RawMap "(string \<times> RawValue) list"
  | RawList "RawValue list"

type_synonym RawRecord = "(string \<times> RawValue) list"

subsection \<open>The data models of \<open>/network/ip/routes\<close>\<close>

text \<open>
  \<open>Vserver\<close> is declared in package \<open>interfaces\<close> outside the files at hand; the source
  reads its field \<open>Name\<close> and asks the API for the field \<open>svm.name\<close>, so its key is
  \<open>name\<close>.
\<close>

record Vserver =
  Name :: string

record DestinationDataSourceModel =
  Address :: string
  Netmask :: string

record IPRouteGetDataModelONTAP =
  Destination :: DestinationDataSourceModel
  UUID :: string
  Gateway :: string
  Metric :: int64
  SVMName :: Vserver

record IPRouteResourceBodyDataModelONTAP =
  body_Destination :: DestinationDataSourceModel
  body_SVM :: Vserver
  body_Gateway :: string
  body_Metric :: int64

text \<open>
  \<open>versionModelONTAP\<close> is declared outside the files at hand; the source reads
  \<open>Generation\<close> and \<open>Major\<close>, the specification names the triple.
\<close>

record versionModelONTAP =
  Generation :: int
  Major :: int
  Minor :: int

section \<open>The collaborators of the route operations\<close>

subsection \<open>The query builder\<close>

text \<open>
  Modelled from the spec: the query type of package \<open>restclient\<close> (\<open>NewQuery\<close>, \<open>Set\<close>,
  \<open>Add\<close>, \<open>Fields\<close>), which is not among the files at hand. A query is an ordered
  collection of filter keys with their values and a field-projection list; \<open>Set\<close>
  replaces any existing value of the key, \<open>Add\<close> appends to the values of the key,
  \<open>Fields\<close> overwrites the projection.
\<close>

record Query =
  filters :: "(string \<times> string list) list"
  projection :: "string list"

definition NewQuery :: Query where
  "NewQuery = \<lparr>filters = [], projection = []\<rparr>"

definition Query_Set :: "Query \<Rightarrow> string \<Rightarrow> string \<Rightarrow> Query" where
  "Query_Set q k v = q\<lparr>filters := AList.update k [v] (filters q)\<rparr>"

definition Query_Add :: "Query \<Rightarrow> string \<Rightarrow> string \<Rightarrow> Query" where
  "Query_Add q k v =
     q\<lparr>filters := AList.update k ((case map_of (filters q) k of None \<Rightarrow> [] | Some vs \<Rightarrow> vs) @ [v])
                    (filters q)\<rparr>"

definition Query_Fields :: "Query \<Rightarrow> string list \<Rightarrow> Query" where
  "Query_Fields q fs = q\<lparr>projection := fs\<rparr>"

subsection \<open>The REST client\<close>

text \<open>
  \<open>restclient.RestClient\<close> is consumed as an opaque capability: each method is a function
  from the arguments of the call to what the call returns, a status code, the records
  and a possibly-nil error. \<open>RestResponse\<close> is the envelope of a create or delete call;
  the source reads its field \<open>Records\<close>.
\<close>

record RestResponse =
  Records :: "RawRecord list"

record RestClient =
  GetNilOrOneRecord ::
    "string \<Rightarrow> Query \<Rightarrow> RawRecord option \<Rightarrow> int \<times> RawRecord option \<times> go_error option"
  CallCreateMethod ::
    "string \<Rightarrow> Query \<Rightarrow> RawRecord \<Rightarrow> int \<times> RestResponse \<times> go_error option"
  CallDeleteMethod ::
    "string \<Rightarrow> Query option \<Rightarrow> RawRecord option \<Rightarrow> int \<times> RestResponse \<times> go_error option"

text \<open>Every call of a client method is logged, in the order of the calls.\<close>

datatype rest_call =
    CallGet string Query "RawRecord option"
  | CallCreate string Query RawRecord
  | CallDelete string "Query option" "RawRecord option"

subsection \<open>Diagnostics and the error handler\<close>

datatype diagnostic = DiagError string string | DiagWarning string string

fun is_error :: "diagnostic \<Rightarrow> bool" where
  "is_error (DiagError s d) = True"
| "is_error (DiagWarning s d) = False"

definition HasError :: "diagnostic list \<Rightarrow> bool" where
  "HasError ds = list_ex is_error ds"

text \<open>
  The state the operations act on: the diagnostics of the response, which the error
  handler points to, and the log of the calls made on the REST client.
\<close>

record World =
  Diagnostics :: "diagnostic list"
  Calls :: "rest_call list"

record ClassifiedError =
  summary :: string
  detail :: string

text \<open>
  Modelled from the spec: \<open>utils.ErrorHandler.MakeAndReportError\<close>, of package \<open>utils\<close>,
  which is not among the files at hand. The error classifier turns a (message, detail)
  pair into a reportable diagnostic: the pair is appended to the diagnostics as an
  error and returned as the classified error.
\<close>

definition MakeAndReportError :: "World \<Rightarrow> string \<Rightarrow> string \<Rightarrow> World \<times> ClassifiedError" where
  "MakeAndReportError w s d =
     (w\<lparr>Diagnostics := Diagnostics w @ [DiagError s d]\<rparr>, \<lparr>summary = s, detail = d\<rparr>)"

subsection \<open>Library functions taken as parameters\<close>

text \<open>
  What the source gets from \<open>fmt\<close> and \<open>mapstructure\<close> beyond \<open>%s\<close> and \<open>%d\<close>: the
  Go-syntax rendering \<open>%#v\<close> of a value, the text of a decoding error for the raw
  record that did not decode, and the conversion of a \<open>float64\<close> to \<open>int64\<close>.
\<close>

record GoLib =
  GoSyntax_Raw :: "RawRecord \<Rightarrow> string"
  GoSyntax_Response :: "RestResponse \<Rightarrow> string"
  GoSyntax_Body :: "IPRouteResourceBodyDataModelONTAP \<Rightarrow> string"
  DecodeErrorText :: "RawRecord \<Rightarrow> string"
  Int64OfFloat64 :: "float64 \<Rightarrow> int64"

subsection \<open>The response decoder\<close>

text \<open>
  Modelled from the spec: \<open>mapstructure.Decode\<close>, a library outside the repository,
  driven by the \<open>mapstructure\<close> tags of the structs above. The decoder maps a raw
  record into a typed record by a static mapping from field names to targets, nested
  records included. The tags mark no field as required: a key that is absent, or whose
  value is nil, leaves the field at its zero value. A value of the wrong type fails the
  whole decode (no partial result). An \<open>int64\<close> target takes an integer or a float.
\<close>

definition decode_string :: "RawValue option \<Rightarrow> string option" where
  "decode_string v =
     (case v of None \<Rightarrow> Some [] | Some RawNil \<Rightarrow> Some [] | Some (RawString s) \<Rightarrow> Some s
      | Some _ \<Rightarrow> None)"

definition decode_int64 :: "GoLib \<Rightarrow> RawValue option \<Rightarrow> int64 option" where
  "decode_int64 lib v =
     (case v of None \<Rightarrow> Some 0 | Some RawNil \<Rightarrow> Some 0 | Some (RawInt64 i) \<Rightarrow> Some i
      | Some (RawFloat64 f) \<Rightarrow> Some (Int64OfFloat64 lib f) | Some _ \<Rightarrow> None)"

definition decode_Destination :: "RawValue option \<Rightarrow> DestinationDataSourceModel option" where
  "decode_Destination v =
     (case v of None \<Rightarrow> Some \<lparr>Address = [], Netmask = []\<rparr>
      | Some RawNil \<Rightarrow> Some \<lparr>Address = [], Netmask = []\<rparr>
      | Some (RawMap m) \<Rightarrow>
          (case decode_string (map_of m ''address'') of None \<Rightarrow> None
           | Some a \<Rightarrow>
               (case decode_string (map_of m ''netmask'') of None \<Rightarrow> None
                | Some n \<Rightarrow> Some \<lparr>Address = a, Netmask = n\<rparr>))
      | Some _ \<Rightarrow> None)"

definition decode_Vserver :: "RawValue option \<Rightarrow> Vserver option" where
  "decode_Vserver v =
     (case v of None \<Rightarrow> Some \<lparr>Name = []\<rparr>
      | Some RawNil \<Rightarrow> Some \<lparr>Name = []\<rparr>
      | Some (RawMap m) \<Rightarrow>
          (case decode_string (map_of m ''name'') of None \<Rightarrow> None
           | Some n \<Rightarrow> Some \<lparr>Name = n\<rparr>)
      | Some _ \<Rightarrow> None)"

definition decode_IPRouteGet :: "GoLib \<Rightarrow> RawRecord \<Rightarrow> IPRouteGetDataModelONTAP option" where
  "decode_IPRouteGet lib m =
     (case decode_Destination (map_of m ''destination'') of None \<Rightarrow> None
      | Some d \<Rightarrow>
     (case decode_string (map_of m ''uuid'') of None \<Rightarrow> None
      | Some u \<Rightarrow>
     (case decode_string (map_of m ''gateway'') of None \<Rightarrow> None
      | Some g \<Rightarrow>
     (case decode_int64 lib (map_of m ''metric'') of None \<Rightarrow> None
      | Some mt \<Rightarrow>
     (case decode_Vserver (map_of m ''svm'') of None \<Rightarrow> None
      | Some s \<Rightarrow>
          Some \<lparr>Destination = d, UUID = u, Gateway = g, Metric = mt, SVMName = s\<rparr>)))))"

text \<open>
  Modelled from the spec: the encoding of a struct into the nested key/value form
  (\<open>mapstructure.Decode\<close> of a struct into a map), by the same tags: one key per field,
  a nested struct as a nested object.
\<close>

definition encode_Destination :: "DestinationDataSourceModel \<Rightarrow> RawValue" where
  "encode_Destination d =
     RawMap [(''address'', RawString (Address d)), (''netmask'', RawString (Netmask d))]"

definition encode_Vserver :: "Vserver \<Rightarrow> RawValue" where
  "encode_Vserver s = RawMap [(''name'', RawString (Name s))]"

definition encode_IPRouteBody :: "IPRouteResourceBodyDataModelONTAP \<Rightarrow> RawRecord" where
  "encode_IPRouteBody b =
     [(''destination'', encode_Destination (body_Destination b)),
      (''svm'', encode_Vserver (body_SVM b)),
      (''gateway'', RawString (body_Gateway b)),
      (''metric'', RawInt64 (body_Metric b))]"

definition encode_IPRouteGet :: "IPRouteGetDataModelONTAP \<Rightarrow> RawRecord" where
  "encode_IPRouteGet r =
     [(''destination'', encode_Destination (Destination r)),
      (''uuid'', RawString (UUID r)),
      (''gateway'', RawString (Gateway r)),
      (''metric'', RawInt64 (Metric r)),
      (''svm'', encode_Vserver (SVMName r))]"

text \<open>
  Modelled from the spec: \<open>mapstructure.Decode(body, &bodyMap)\<close> as \<open>CreateIPRoute\<close>
  calls it. The encoding of a struct of strings, integers and nested structs has no
  failing case; the result keeps the shape of the call, an error or the map.
\<close>

definition mapstructure_Decode_body ::
  "IPRouteResourceBodyDataModelONTAP \<Rightarrow> go_error + RawRecord" where
  "mapstructure_Decode_body b = Inr (encode_IPRouteBody b)"

section \<open>The operations on \<open>/network/ip/routes\<close>\<close>

text \<open>
  Calls of \<open>tflog\<close> write a log line and nothing else; they are left out.
\<close>

definition api_routes :: string where
  "api_routes = ''/network/ip/routes''"

text \<open>The query of \<open>GetIPRoute\<close>: the filters, then the field projection gated by the version.\<close>

definition GetIPRoute_fields :: "versionModelONTAP \<Rightarrow> string list" where
  "GetIPRoute_fields version =
     (let fields = [''destination'', ''svm.name'', ''gateway'', ''scope'']
      in if Generation version = 9 \<and> Major version > 10 then fields @ [''metric''] else fields)"

definition GetIPRoute_query :: "string \<Rightarrow> string \<Rightarrow> versionModelONTAP \<Rightarrow> Query" where
  "GetIPRoute_query Dest svmName version =
     (let query = NewQuery;
          query = Query_Set query ''destination.address'' Dest;
          query = (if svmName = [] then Query_Set query ''scope'' ''cluster''
                   else Query_Set (Query_Set query ''svm.name'' svmName) ''scope'' ''svm'')
      in Query_Fields query (GetIPRoute_fields version))"

text \<open>
  \<open>GetIPRoute\<close>. An error of the transport is reported as it is; no error and no record
  is turned into the error \<open>no response for GET\<close>; a record is decoded.
\<close>

definition GetIPRoute ::
  "GoLib \<Rightarrow> World \<Rightarrow> RestClient \<Rightarrow> string \<Rightarrow> string \<Rightarrow> versionModelONTAP
     \<Rightarrow> World \<times> IPRouteGetDataModelONTAP option \<times> ClassifiedError option" where
  "GetIPRoute lib w r Dest svmName version =
     (let api = api_routes;
          query = GetIPRoute_query Dest svmName version;
          (statusCode, response, err) = GetNilOrOneRecord r api query None;
          w1 = w\<lparr>Calls := Calls w @ [CallGet api query None]\<rparr>;
          fail = (\<lambda>e. let (w2, ce) = MakeAndReportError w1 ''error reading /network/ip/routes info''
                                       (''error on GET '' @ api @ '': '' @ e @ '', statusCode '' @ fmt_d statusCode)
                       in (w2, None, Some ce))
      in case err of
           Some e \<Rightarrow> fail e
         | None \<Rightarrow>
             (case response of
                None \<Rightarrow> fail (''no response for GET '' @ api)
              | Some resp \<Rightarrow>
                  (case decode_IPRouteGet lib resp of
                     None \<Rightarrow>
                       (let (w2, ce) = MakeAndReportError w1 (''failed to decode response from GET '' @ api)
                                         (''error: '' @ DecodeErrorText lib resp @ '', statusCode '' @ fmt_d statusCode
                                            @ '', response '' @ GoSyntax_Raw lib resp)
                        in (w2, None, Some ce))
                   | Some dataONTAP \<Rightarrow> (w1, Some dataONTAP, None))))"

text \<open>
  \<open>CreateIPRoute\<close>. \<open>response.Records[0]\<close> is read without a check of the length: on an
  empty list the Go runtime panics.
\<close>

definition CreateIPRoute ::
  "GoLib \<Rightarrow> World \<Rightarrow> RestClient \<Rightarrow> IPRouteResourceBodyDataModelONTAP
     \<Rightarrow> (World \<times> IPRouteGetDataModelONTAP option \<times> ClassifiedError option) outcome" where
  "CreateIPRoute lib w r body =
     (let api = api_routes
      in case mapstructure_Decode_body body of
           Inl e \<Rightarrow>
             (let (w2, ce) = MakeAndReportError w ''error encoding /network/ip/routes body''
                               (''error on encoding '' @ api @ '' body: '' @ e @ '', body: '' @ GoSyntax_Body lib body)
              in Return (w2, None, Some ce))
         | Inr bodyMap \<Rightarrow>
             (let query = Query_Add NewQuery ''return_records'' ''true'';
                  (statusCode, response, err) = CallCreateMethod r api query bodyMap;
                  w1 = w\<lparr>Calls := Calls w @ [CallCreate api query bodyMap]\<rparr>
              in case err of
                   Some e \<Rightarrow>
                     (let (w2, ce) = MakeAndReportError w1 ''error creating /network/ip/routes''
                                       (''error on POST '' @ api @ '': '' @ e @ '', statusCode '' @ fmt_d statusCode)
                      in Return (w2, None, Some ce))
                 | None \<Rightarrow>
                     (case Records response of
                        [] \<Rightarrow> Panic ''runtime error: index out of range [0] with length 0''
                      | rec0 # _ \<Rightarrow>
                          (case decode_IPRouteGet lib rec0 of
                             None \<Rightarrow>
                               (let (w2, ce) = MakeAndReportError w1 ''error decoding /network/ip/routes info''
                                                 (''error on decode /network/ip/routes info: '' @ DecodeErrorText lib rec0
                                                    @ '', statusCode '' @ fmt_d statusCode
                                                    @ '', response '' @ GoSyntax_Response lib response)
                                in Return (w2, None, Some ce))
                           | Some dataONTAP \<Rightarrow> Return (w1, Some dataONTAP, None)))))"

text \<open>
  \<open>DeleteIPRoute\<close>. The request goes to the path of the route, \<open>api + "/" + uuid\<close>; the
  detail of the error names \<open>api\<close>.
\<close>

definition DeleteIPRoute :: "World \<Rightarrow> RestClient \<Rightarrow> string \<Rightarrow> World \<times> ClassifiedError option" where
  "DeleteIPRoute w r uuid =
     (let api = api_routes;
          (statusCode, response, err) = CallDeleteMethod r (api @ ''/'' @ uuid) None None;
          w1 = w\<lparr>Calls := Calls w @ [CallDelete (api @ ''/'' @ uuid) None None]\<rparr>
      in case err of
           Some e \<Rightarrow>
             (let (w2, ce) = MakeAndReportError w1 ''error deleting /network/ip/routes''
                               (''error on DELETE '' @ api @ '': '' @ e @ '', statusCode '' @ fmt_d statusCode)
              in (w2, Some ce))
         | None \<Rightarrow> (w1, None))"

subsection \<open>The cardinality resolver\<close>

text \<open>
  Modelled from the spec: \<open>GetNilOrOneRecord\<close> of package \<open>restclient\<close>, which is not
  among the files at hand. Given what the transport returned for a read (status code,
  records, error): a failure of the transport is an error; zero records are absence,
  with no error; exactly one record is that record; more than one record is an
  AmbiguousResult error, whose text is the parameter \<open>ambiguous\<close>.
\<close>

definition resolve_cardinality ::
  "go_error \<Rightarrow> int \<times> RawRecord list \<times> go_error option \<Rightarrow> int \<times> RawRecord option \<times> go_error option" where
  "resolve_cardinality ambiguous t =
     (case t of (status, records, err) \<Rightarrow>
        (case err of
           Some e \<Rightarrow> (status, None, Some e)
         | None \<Rightarrow>
             (case records of
                [] \<Rightarrow> (status, None, None)
              | [r] \<Rightarrow> (status, Some r, None)
              | r # r' # rs \<Rightarrow> (status, None, Some ambiguous))))"

section \<open>The IP route resource of the provider\<close>

subsection \<open>Values of the plugin framework\<close>

text \<open>
  \<open>types.String\<close>, \<open>types.Int64\<close> and \<open>types.Float64\<close> are null, unknown or a value;
  \<open>ValueString\<close> of a null or unknown string is the empty string.
\<close>

datatype tf_String = StringNull | StringUnknown | StringValue string
datatype tf_Int64 = Int64Null | Int64Unknown | Int64Value int64
datatype tf_Float64 = Float64Null | Float64Unknown | Float64Value float64

fun ValueString :: "tf_String \<Rightarrow> string" where
  "ValueString (StringValue s) = s"
| "ValueString StringNull = []"
| "ValueString StringUnknown = []"

fun IsNull :: "tf_String \<Rightarrow> bool" where
  "IsNull StringNull = True"
| "IsNull StringUnknown = False"
| "IsNull (StringValue s) = False"

text \<open>
  The \<open>DestinationDataSourceModel\<close> of package \<open>provider\<close> is declared outside the files
  at hand; the source reads and writes its fields \<open>Address\<close> and \<open>Netmask\<close> as
  \<open>types.String\<close>.
\<close>

record provider_DestinationDataSourceModel =
  res_Address :: tf_String
  res_Netmask :: tf_String

text \<open>\<open>Destination\<close> is a pointer: \<open>None\<close> is the nil pointer.\<close>

record IPRouteResourceModel =
  CxProfileName :: tf_String
  res_SVMName :: tf_String
  res_Destination :: "provider_DestinationDataSourceModel option"
  res_Gateway :: tf_String
  res_Metric :: tf_Int64
  res_UUID :: tf_String

text \<open>
  \<open>resourceOrDataSourceConfig\<close> is declared outside the files at hand. The provider
  configuration is taken as the table from a connection profile name to the client of
  that profile, or to the error of making it.
\<close>

record resourceOrDataSourceConfig =
  name :: string
  providerConfig :: "tf_String \<Rightarrow> ClassifiedError + RestClient"

text \<open>
  Modelled from the spec: \<open>getRestClient\<close> of package \<open>provider\<close>, which is not among
  the files at hand. It wires a named connection profile to a client instance and makes
  no request; where it fails, the error has been reported inside (as the comments of the
  source say at each call) and the caller returns.
\<close>

definition getRestClient ::
  "World \<Rightarrow> resourceOrDataSourceConfig \<Rightarrow> tf_String \<Rightarrow> World \<times> RestClient option" where
  "getRestClient w config cxProfileName =
     (case providerConfig config cxProfileName of
        Inl e \<Rightarrow> (fst (MakeAndReportError w (summary e) (detail e)), None)
      | Inr client \<Rightarrow> (w, Some client))"

text \<open>
  \<open>interfaces.GetCluster\<close> is outside the files at hand and is a parameter of \<open>Read\<close>:
  it acts on the world (it calls the client and reports its own errors) and returns the
  cluster, of which the source reads \<open>Version\<close>, or nil with an error.
\<close>

record Cluster =
  Version :: versionModelONTAP

type_synonym GetCluster_fn = "World \<Rightarrow> RestClient \<Rightarrow> World \<times> Cluster option"

text \<open>
  A request carries what \<open>req.State.Get\<close> or \<open>req.Plan.Get\<close> yields: the model read and
  the diagnostics of reading it. The prior state and the plan of an existing resource
  are not null, so the model read is not the nil pointer. The response carries the
  diagnostics (in the world) and the state; \<open>State.Set\<close> stores the model.
\<close>

type_synonym request = "IPRouteResourceModel \<times> diagnostic list"
type_synonym response = "World \<times> IPRouteResourceModel option"

definition nil_dereference :: string where
  "nil_dereference = ''runtime error: invalid memory address or nil pointer dereference''"

definition IPRouteResource_Read ::
  "GetCluster_fn \<Rightarrow> GoLib \<Rightarrow> resourceOrDataSourceConfig \<Rightarrow> request \<Rightarrow> response \<Rightarrow> response outcome" where
  "IPRouteResource_Read GetCluster lib config req resp =
     (case (req, resp) of ((data, ds), (w, st)) \<Rightarrow>
        (let w0 = w\<lparr>Diagnostics := Diagnostics w @ ds\<rparr>
         in if HasError (Diagnostics w0) then Return (w0, st)
            else
              (case getRestClient w0 config (CxProfileName data) of
                 (w1, None) \<Rightarrow> Return (w1, st)
               | (w1, Some client) \<Rightarrow>
                   (case GetCluster w1 client of
                      (w2, None) \<Rightarrow> Return (w2, st)
                    | (w2, Some cluster) \<Rightarrow>
                        (case res_Destination data of
                           None \<Rightarrow> Panic nil_dereference
                         | Some dest \<Rightarrow>
                             (case GetIPRoute lib w2 client (ValueString (res_Address dest))
                                     (ValueString (res_SVMName data)) (Version cluster) of
                                (w3, restInfo, Some err) \<Rightarrow> Return (w3, st)
                              | (w3, None, None) \<Rightarrow> Panic nil_dereference
                              | (w3, Some restInfo, None) \<Rightarrow>
                                  Return (w3, Some (data
                                    \<lparr>res_Destination :=
                                        Some (dest\<lparr>res_Address := StringValue (Address (Destination restInfo)),
                                                   res_Netmask := StringValue (Netmask (Destination restInfo))\<rparr>),
                                     res_Gateway := StringValue (Gateway restInfo),
                                     res_Metric := Int64Value (Metric restInfo),
                                     res_SVMName := StringValue (Name (SVMName restInfo))\<rparr>))))))))"

definition IPRouteResource_Update :: "request \<Rightarrow> response \<Rightarrow> response" where
  "IPRouteResource_Update req resp =
     (case (req, resp) of ((data, ds), (w, st)) \<Rightarrow>
        (let w0 = w\<lparr>Diagnostics := Diagnostics w @ ds\<rparr>
         in if HasError (Diagnostics w0) then (w0, st) else (w0, Some data)))"

definition IPRouteResource_Delete ::
  "resourceOrDataSourceConfig \<Rightarrow> request \<Rightarrow> response \<Rightarrow> response" where
  "IPRouteResource_Delete config req resp =
     (case (req, resp) of ((data, ds), (w, st)) \<Rightarrow>
        (let w0 = w\<lparr>Diagnostics := Diagnostics w @ ds\<rparr>
         in if HasError (Diagnostics w0) then (w0, st)
            else
              (case getRestClient w0 config (CxProfileName data) of
                 (w1, None) \<Rightarrow> (w1, st)
               | (w1, Some client) \<Rightarrow>
                   if IsNull (res_UUID data)
                   then (fst (MakeAndReportError w1 ''UUID is null'' ''ip_interface UUID is null''), st)
                   else (fst (DeleteIPRoute w1 client (ValueString (res_UUID data))), st))))"

section \<open>The storage volume snapshot data source\<close>

text \<open>
  The record \<open>interfaces.GetStorageVolumeSnapshots\<close> returns is declared outside the
  files at hand; these are the fields the data source reads.
\<close>

record NameDataModel =
  vol_Name :: string
  vol_UUID :: string

record StorageVolumeSnapshotGetDataModelONTAP =
  sn_CreateTime :: string
  sn_Comment :: string
  sn_ExpiryTime :: string
  sn_Name :: string
  sn_Size :: float64
  sn_SnapmirrorLabel :: string
  sn_State :: string
  sn_Volume :: NameDataModel

record StorageVolumeSnapshotDataSourceModel =
  ds_CxProfileName :: tf_String
  ds_CreateTime :: tf_String
  ds_Comment :: tf_String
  ds_ExpiryTime :: tf_String
  ds_Name :: tf_String
  ds_Size :: tf_Float64
  ds_SnapmirrorLabel :: tf_String
  ds_State :: tf_String
  ds_VolumeUUID :: tf_String
  ds_VolumeName :: tf_String

text \<open>
  \<open>interfaces.GetStorageVolumeSnapshots\<close> is outside the files at hand and is a
  parameter of \<open>Read\<close>: it returns the snapshot, or nil, and a possibly-nil error that it
  has reported itself.
\<close>

type_synonym GetStorageVolumeSnapshots_fn =
  "World \<Rightarrow> RestClient \<Rightarrow> string \<Rightarrow> string
     \<Rightarrow> World \<times> StorageVolumeSnapshotGetDataModelONTAP option \<times> ClassifiedError option"

definition StorageVolumeSnapshotDataSource_Read ::
  "GetStorageVolumeSnapshots_fn \<Rightarrow> resourceOrDataSourceConfig
     \<Rightarrow> StorageVolumeSnapshotDataSourceModel \<times> diagnostic list
     \<Rightarrow> World \<times> StorageVolumeSnapshotDataSourceModel option
     \<Rightarrow> World \<times> StorageVolumeSnapshotDataSourceModel option" where
  "StorageVolumeSnapshotDataSource_Read GetStorageVolumeSnapshots config req resp =
     (case (req, resp) of ((data, ds), (w, st)) \<Rightarrow>
        (let w0 = w\<lparr>Diagnostics := Diagnostics w @ ds\<rparr>
         in if HasError (Diagnostics w0) then (w0, st)
            else
              (case getRestClient w0 config (ds_CxProfileName data) of
                 (w1, None) \<Rightarrow> (w1, st)
               | (w1, Some client) \<Rightarrow>
                   if IsNull (ds_Name data)
                   then (fst (MakeAndReportError w1 ''error reading snapshot'' ''Snapshot name is null''), st)
                   else if IsNull (ds_VolumeUUID data)
                   then (fst (MakeAndReportError w1 ''error reading snapshot'' ''Volume UUID is null''), st)
                   else
                     (case GetStorageVolumeSnapshots w1 client (ValueString (ds_Name data))
                             (ValueString (ds_VolumeUUID data)) of
                        (w2, snapshot, Some err) \<Rightarrow> (w2, st)
                      | (w2, None, None) \<Rightarrow>
                          (fst (MakeAndReportError w2 ''No snapshot found''
                                  (''snapshot '' @ ValueString (ds_Name data) @ '' not found.'')), st)
                      | (w2, Some snapshot, None) \<Rightarrow>
                          (w2, Some (data
                            \<lparr>ds_CreateTime := StringValue (sn_CreateTime snapshot),
                             ds_Comment := StringValue (sn_Comment snapshot),
                             ds_ExpiryTime := StringValue (sn_ExpiryTime snapshot),
                             ds_Name := StringValue (sn_Name snapshot),
                             ds_Size := Float64Value (sn_Size snapshot),
                             ds_SnapmirrorLabel := StringValue (sn_SnapmirrorLabel snapshot),
                             ds_State := StringValue (sn_State snapshot),
                             ds_VolumeUUID := StringValue (vol_UUID (sn_Volume snapshot)),
                             ds_VolumeName := StringValue (vol_Name (sn_Volume snapshot))\<rparr>))))))"

section \<open>Concrete inputs\<close>

text \<open>Stub collaborators and sample values, for the theorems evaluated at a concrete input.\<close>

definition sample_lib :: GoLib where
  "sample_lib = \<lparr>GoSyntax_Raw = (\<lambda>m. []), GoSyntax_Response = (\<lambda>r. []), GoSyntax_Body = (\<lambda>b. []),
     DecodeErrorText = (\<lambda>m. []), Int64OfFloat64 = (\<lambda>f. 0)\<rparr>"

definition empty_world :: World where
  "empty_world = \<lparr>Diagnostics = [], Calls = []\<rparr>"

definition stub_client ::
  "int \<times> RawRecord option \<times> go_error option \<Rightarrow> int \<times> RestResponse \<times> go_error option
     \<Rightarrow> int \<times> RestResponse \<times> go_error option \<Rightarrow> RestClient" where
  "stub_client g c d =
     \<lparr>GetNilOrOneRecord = (\<lambda>api q b. g), CallCreateMethod = (\<lambda>api q b. c),
      CallDeleteMethod = (\<lambda>api q b. d)\<rparr>"

definition no_reply :: "int \<times> RestResponse \<times> go_error option" where
  "no_reply = (0, \<lparr>Records = []\<rparr>, None)"

definition version_9_11 :: versionModelONTAP where
  "version_9_11 = \<lparr>Generation = 9, Major = 11, Minor = 0\<rparr>"

definition version_9_8 :: versionModelONTAP where
  "version_9_8 = \<lparr>Generation = 9, Major = 8, Minor = 0\<rparr>"

definition config_of :: "RestClient \<Rightarrow> resourceOrDataSourceConfig" where
  "config_of client = \<lparr>name = ''networking_ip_route_resource'', providerConfig = (\<lambda>n. Inr client)\<rparr>"

definition sample_route :: IPRouteResourceModel where
  "sample_route =
     \<lparr>CxProfileName = StringValue ''cluster1'', res_SVMName = StringNull,
      res_Destination = Some \<lparr>res_Address = StringValue ''10.0.0.0'', res_Netmask = StringValue ''24''\<rparr>,
      res_Gateway = StringValue ''10.0.0.1'', res_Metric = Int64Null, res_UUID = StringNull\<rparr>"

definition sample_snapshot_config :: StorageVolumeSnapshotDataSourceModel where
  "sample_snapshot_config =
     \<lparr>ds_CxProfileName = StringValue ''cluster1'', ds_CreateTime = StringNull, ds_Comment = StringNull,
      ds_ExpiryTime = StringNull, ds_Name = StringValue ''snap1'', ds_Size = Float64Null,
      ds_SnapmirrorLabel = StringNull, ds_State = StringNull, ds_VolumeUUID = StringValue ''v1'',
      ds_VolumeName = StringNull\<rparr>"

definition sample_get_record :: IPRouteGetDataModelONTAP where
  "sample_get_record =
     \<lparr>Destination = \<lparr>Address = ''10.0.0.0'', Netmask = ''24''\<rparr>, UUID = ''u1'', Gateway = ''10.0.0.1'',
      Metric = 20, SVMName = \<lparr>Name = ''svm1''\<rparr>\<rparr>"

definition sample_body :: IPRouteResourceBodyDataModelONTAP where
  "sample_body =
     \<lparr>body_Destination = \<lparr>Address = ''10.0.0.0'', Netmask = ''24''\<rparr>, body_SVM = \<lparr>Name = ''svm1''\<rparr>,
      body_Gateway = ''10.0.0.1'', body_Metric = 20\<rparr>"

definition cluster_9_11 :: GetCluster_fn where
  "cluster_9_11 = (\<lambda>w client. (w, Some \<lparr>Version = version_9_11\<rparr>))"

text \<open>
  The detail of a failed transport call, as the three operations format it:
  \<open>fmt.Sprintf("error on VERB %s: %s, statusCode %d", api, err, statusCode)\<close>.
\<close>

definition transport_detail :: "string \<Rightarrow> go_error \<Rightarrow> int \<Rightarrow> string" where
  "transport_detail verb e st =
     ''error on '' @ verb @ '' '' @ api_routes @ '': '' @ e @ '', statusCode '' @ fmt_d st"

section \<open>What the operations do on each branch\<close>

lemma fmt_d_200: "fmt_d 200 = ''200''"
  by code_simp

lemma fmt_d_500: "fmt_d 500 = ''500''"
  by code_simp

lemma GetIPRoute_fields_exactly:
  "GetIPRoute_fields v =
     (if Generation v = 9 \<and> 10 < Major v
      then [''destination'', ''svm.name'', ''gateway'', ''scope'', ''metric'']
      else [''destination'', ''svm.name'', ''gateway'', ''scope''])"
  by (simp add: GetIPRoute_fields_def Let_def)

lemma GetIPRoute_query_exactly:
  "GetIPRoute_query D s v =
     \<lparr>filters = (if s = [] then [(''destination.address'', [D]), (''scope'', [''cluster''])]
                  else [(''destination.address'', [D]), (''svm.name'', [s]), (''scope'', [''svm''])]),
      projection = GetIPRoute_fields v\<rparr>"
  by (simp add: GetIPRoute_query_def Query_Fields_def Query_Set_def NewQuery_def Let_def)

lemma GetIPRoute_calls:
  "Calls (fst (GetIPRoute lib w r D s v)) = Calls w @ [CallGet api_routes (GetIPRoute_query D s v) None]"
  by (simp add: GetIPRoute_def MakeAndReportError_def Let_def split: prod.splits option.splits)

lemma GetIPRoute_error:
  assumes "GetNilOrOneRecord r api_routes (GetIPRoute_query D s v) None = (st, resp, Some e)"
  shows "GetIPRoute lib w r D s v =
     (w\<lparr>Diagnostics := Diagnostics w @ [DiagError ''error reading /network/ip/routes info''
           (''error on GET /network/ip/routes: '' @ e @ '', statusCode '' @ fmt_d st)],
        Calls := Calls w @ [CallGet api_routes (GetIPRoute_query D s v) None]\<rparr>,
      None,
      Some \<lparr>summary = ''error reading /network/ip/routes info'',
            detail = ''error on GET /network/ip/routes: '' @ e @ '', statusCode '' @ fmt_d st\<rparr>)"
  using assms by (simp add: GetIPRoute_def MakeAndReportError_def Let_def api_routes_def)

lemma GetIPRoute_absent:
  assumes "GetNilOrOneRecord r api_routes (GetIPRoute_query D s v) None = (st, None, None)"
  shows "GetIPRoute lib w r D s v =
     (w\<lparr>Diagnostics := Diagnostics w @ [DiagError ''error reading /network/ip/routes info''
           (''error on GET /network/ip/routes: no response for GET /network/ip/routes, statusCode '' @ fmt_d st)],
        Calls := Calls w @ [CallGet api_routes (GetIPRoute_query D s v) None]\<rparr>,
      None,
      Some \<lparr>summary = ''error reading /network/ip/routes info'',
            detail = ''error on GET /network/ip/routes: no response for GET /network/ip/routes, statusCode ''
                       @ fmt_d st\<rparr>)"
  using assms by (simp add: GetIPRoute_def MakeAndReportError_def Let_def api_routes_def)

lemma GetIPRoute_decoded:
  assumes "GetNilOrOneRecord r api_routes (GetIPRoute_query D s v) None = (st, Some resp, None)"
    and "decode_IPRouteGet lib resp = Some dataONTAP"
  shows "GetIPRoute lib w r D s v =
     (w\<lparr>Calls := Calls w @ [CallGet api_routes (GetIPRoute_query D s v) None]\<rparr>, Some dataONTAP, None)"
  using assms by (simp add: GetIPRoute_def Let_def)

lemma CreateIPRoute_error:
  assumes "CallCreateMethod r api_routes (Query_Add NewQuery ''return_records'' ''true'') (encode_IPRouteBody body)
             = (st, resp, Some e)"
  shows "CreateIPRoute lib w r body = Return
     (w\<lparr>Diagnostics := Diagnostics w @ [DiagError ''error creating /network/ip/routes''
           (''error on POST /network/ip/routes: '' @ e @ '', statusCode '' @ fmt_d st)],
        Calls := Calls w @ [CallCreate api_routes (Query_Add NewQuery ''return_records'' ''true'')
                              (encode_IPRouteBody body)]\<rparr>,
      None,
      Some \<lparr>summary = ''error creating /network/ip/routes'',
            detail = ''error on POST /network/ip/routes: '' @ e @ '', statusCode '' @ fmt_d st\<rparr>)"
  using assms
  by (simp add: CreateIPRoute_def mapstructure_Decode_body_def MakeAndReportError_def Let_def api_routes_def)

lemma DeleteIPRoute_error:
  assumes "CallDeleteMethod r (api_routes @ ''/'' @ uuid) None None = (st, resp, Some e)"
  shows "DeleteIPRoute w r uuid =
     (w\<lparr>Diagnostics := Diagnostics w @ [DiagError ''error deleting /network/ip/routes''
           (''error on DELETE /network/ip/routes: '' @ e @ '', statusCode '' @ fmt_d st)],
        Calls := Calls w @ [CallDelete (api_routes @ ''/'' @ uuid) None None]\<rparr>,
      Some \<lparr>summary = ''error deleting /network/ip/routes'',
            detail = ''error on DELETE /network/ip/routes: '' @ e @ '', statusCode '' @ fmt_d st\<rparr>)"
  using assms by (simp add: DeleteIPRoute_def MakeAndReportError_def Let_def api_routes_def)

lemma snapshot_Read_absent:
  assumes "\<not> HasError (Diagnostics w @ ds)"
    and "providerConfig config (ds_CxProfileName data) = Inr client"
    and "\<not> IsNull (ds_Name data)" and "\<not> IsNull (ds_VolumeUUID data)"
    and "GetSnap (w\<lparr>Diagnostics := Diagnostics w @ ds\<rparr>) client (ValueString (ds_Name data))
           (ValueString (ds_VolumeUUID data)) = (w2, None, None)"
  shows "StorageVolumeSnapshotDataSource_Read GetSnap config (data, ds) (w, sst) =
           (w2\<lparr>Diagnostics := Diagnostics w2 @
                [DiagError ''No snapshot found'' (''snapshot '' @ ValueString (ds_Name data) @ '' not found.'')]\<rparr>, sst)"
  using assms
  by (simp add: StorageVolumeSnapshotDataSource_Read_def getRestClient_def MakeAndReportError_def Let_def)

lemma decode_encode_Destination: "decode_Destination (Some (encode_Destination d)) = Some d"
  by (simp add: decode_Destination_def encode_Destination_def decode_string_def)

lemma decode_encode_Vserver: "decode_Vserver (Some (encode_Vserver s)) = Some s"
  by (simp add: decode_Vserver_def encode_Vserver_def decode_string_def)

lemma decode_encode_get: "decode_IPRouteGet lib (encode_IPRouteGet rec) = Some rec"
  by (simp add: decode_IPRouteGet_def encode_IPRouteGet_def decode_encode_Destination decode_encode_Vserver
      decode_string_def decode_int64_def)

lemma decode_encode_body:
  "decode_IPRouteGet lib (encode_IPRouteBody b) =
     Some \<lparr>Destination = body_Destination b, UUID = [], Gateway = body_Gateway b, Metric = body_Metric b,
           SVMName = body_SVM b\<rparr>"
  by (simp add: decode_IPRouteGet_def encode_IPRouteBody_def decode_encode_Destination decode_encode_Vserver
      decode_string_def decode_int64_def)

lemma Read_success:
  assumes "\<not> HasError (Diagnostics w @ ds)"
    and "providerConfig config (CxProfileName data) = Inr client"
    and "GetCluster (w\<lparr>Diagnostics := Diagnostics w @ ds\<rparr>) client = (w2, Some cluster)"
    and "res_Destination data = Some dest"
    and "GetIPRoute lib w2 client (ValueString (res_Address dest)) (ValueString (res_SVMName data))
           (Version cluster) = (w3, Some restInfo, None)"
  shows "IPRouteResource_Read GetCluster lib config (data, ds) (w, st) =
           Return (w3, Some \<lparr>CxProfileName = CxProfileName data,
                              res_SVMName = StringValue (Name (SVMName restInfo)),
                              res_Destination = Some \<lparr>res_Address = StringValue (Address (Destination restInfo)),
                                                      res_Netmask = StringValue (Netmask (Destination restInfo))\<rparr>,
                              res_Gateway = StringValue (Gateway restInfo),
                              res_Metric = Int64Value (Metric restInfo),
                              res_UUID = res_UUID data\<rparr>)"
  using assms
  by (simp add: IPRouteResource_Read_def getRestClient_def Let_def)

lemma Read_frame:
  assumes "IPRouteResource_Read GetCluster lib config (data, ds) (w, st) = Return (w', st')"
  shows "st' = st \<or>
         (\<exists>m. st' = Some m \<and> res_UUID m = res_UUID data \<and> CxProfileName m = CxProfileName data)"
  using assms
  by (auto simp add: IPRouteResource_Read_def getRestClient_def Let_def
      split: if_splits sum.splits prod.splits option.splits)

section \<open>The claims\<close>

subsection \<open>Absence on Get\<close>

text \<open>
  C1, as the code has it. A Get that matches zero records does not return absence
  silently. \<open>GetIPRoute\<close>: when the transport returns no record and no error, the
  operation makes the error \<open>no response for GET /network/ip/routes\<close>, reports it through
  the error handler as \<open>error reading /network/ip/routes info\<close>, and returns no record
  and that error. The snapshot data source: when \<open>GetStorageVolumeSnapshots\<close> returns
  no snapshot and no error, \<open>Read\<close> reports the error \<open>No snapshot found\<close> and leaves
  the state as it was.
\<close>

theorem absent_is_reported_as_error:
  "(GetNilOrOneRecord r api_routes (GetIPRoute_query D s v) None = (st, None, None) \<longrightarrow>
      GetIPRoute lib w r D s v =
        (w\<lparr>Diagnostics := Diagnostics w @ [DiagError ''error reading /network/ip/routes info''
              (''error on GET /network/ip/routes: no response for GET /network/ip/routes, statusCode '' @ fmt_d st)],
           Calls := Calls w @ [CallGet api_routes (GetIPRoute_query D s v) None]\<rparr>,
         None,
         Some \<lparr>summary = ''error reading /network/ip/routes info'',
               detail = ''error on GET /network/ip/routes: no response for GET /network/ip/routes, statusCode ''
                          @ fmt_d st\<rparr>)) \<and>
   (\<not> HasError (Diagnostics w @ ds) \<and> providerConfig config (ds_CxProfileName data) = Inr client \<and>
    \<not> IsNull (ds_Name data) \<and> \<not> IsNull (ds_VolumeUUID data) \<and>
    GetSnap (w\<lparr>Diagnostics := Diagnostics w @ ds\<rparr>) client (ValueString (ds_Name data))
      (ValueString (ds_VolumeUUID data)) = (w2, None, None) \<longrightarrow>
      StorageVolumeSnapshotDataSource_Read GetSnap config (data, ds) (w, sst) =
        (w2\<lparr>Diagnostics := Diagnostics w2 @
             [DiagError ''No snapshot found'' (''snapshot '' @ ValueString (ds_Name data) @ '' not found.'')]\<rparr>,
         sst))"
  using GetIPRoute_absent snapshot_Read_absent by blast

theorem absent_is_reported_as_error_witness:
  "GetIPRoute sample_lib empty_world (stub_client (200, None, None) no_reply no_reply) ''10.0.0.0'' []
       version_9_11 =
     (\<lparr>Diagnostics = [DiagError ''error reading /network/ip/routes info''
           ''error on GET /network/ip/routes: no response for GET /network/ip/routes, statusCode 200''],
       Calls = [CallGet ''/network/ip/routes''
           \<lparr>filters = [(''destination.address'', [''10.0.0.0'']), (''scope'', [''cluster''])],
            projection = [''destination'', ''svm.name'', ''gateway'', ''scope'', ''metric'']\<rparr> None]\<rparr>,
      None,
      Some \<lparr>summary = ''error reading /network/ip/routes info'',
            detail = ''error on GET /network/ip/routes: no response for GET /network/ip/routes, statusCode 200''\<rparr>) \<and>
   StorageVolumeSnapshotDataSource_Read (\<lambda>w c n u. (w, None, None))
       (config_of (stub_client (200, None, None) no_reply no_reply))
       (sample_snapshot_config, []) (empty_world, None) =
     (\<lparr>Diagnostics = [DiagError ''No snapshot found'' ''snapshot snap1 not found.''], Calls = []\<rparr>, None)"
proof -
  let ?r = "stub_client (200, None, None) no_reply no_reply"
  have g: "GetNilOrOneRecord ?r api_routes (GetIPRoute_query ''10.0.0.0'' [] version_9_11) None = (200, None, None)"
    by (simp add: stub_client_def)
  have q: "GetIPRoute_query ''10.0.0.0'' [] version_9_11 =
      \<lparr>filters = [(''destination.address'', [''10.0.0.0'']), (''scope'', [''cluster''])],
       projection = [''destination'', ''svm.name'', ''gateway'', ''scope'', ''metric'']\<rparr>"
    by (simp add: GetIPRoute_query_exactly GetIPRoute_fields_exactly version_9_11_def)
  have h: "\<not> HasError (Diagnostics empty_world @ []) \<and>
      providerConfig (config_of ?r) (ds_CxProfileName sample_snapshot_config) = Inr ?r \<and>
      \<not> IsNull (ds_Name sample_snapshot_config) \<and> \<not> IsNull (ds_VolumeUUID sample_snapshot_config) \<and>
      (\<lambda>w c n u. (w, None, None)) (empty_world\<lparr>Diagnostics := Diagnostics empty_world @ []\<rparr>) ?r
        (ValueString (ds_Name sample_snapshot_config)) (ValueString (ds_VolumeUUID sample_snapshot_config))
        = (empty_world, None, None)"
    by (simp add: HasError_def empty_world_def config_of_def sample_snapshot_config_def)
  from absent_is_reported_as_error [of ?r "''10.0.0.0''" "[]" version_9_11 200 sample_lib empty_world "[]"
      "config_of ?r" sample_snapshot_config ?r "\<lambda>w c n u. (w, None, None)" empty_world None]
  show ?thesis using g h q
    by (simp add: fmt_d_200 empty_world_def api_routes_def sample_snapshot_config_def)
qed

text \<open>
  C1 as stated fails: at a transport that answers the read with status 200, no record
  and no error, \<open>GetIPRoute\<close> returns an error and reports it, and the data source
  whose lookup finds no snapshot reports \<open>No snapshot found\<close>.
\<close>

theorem absent_without_error_counterexample:
  "snd (GetIPRoute sample_lib empty_world (stub_client (200, None, None) no_reply no_reply) ''10.0.0.0'' []
          version_9_11) \<noteq> (None, None) \<and>
   HasError (Diagnostics (fst (GetIPRoute sample_lib empty_world
          (stub_client (200, None, None) no_reply no_reply) ''10.0.0.0'' [] version_9_11))) \<and>
   HasError (Diagnostics (fst (StorageVolumeSnapshotDataSource_Read (\<lambda>w c n u. (w, None, None))
       (config_of (stub_client (200, None, None) no_reply no_reply))
       (sample_snapshot_config, []) (empty_world, None))))"
proof -
  let ?r = "stub_client (200, None, None) no_reply no_reply"
  have g: "GetNilOrOneRecord ?r api_routes (GetIPRoute_query ''10.0.0.0'' [] version_9_11) None = (200, None, None)"
    by (simp add: stub_client_def)
  have s: "StorageVolumeSnapshotDataSource_Read (\<lambda>w c n u. (w, None, None)) (config_of ?r)
       (sample_snapshot_config, []) (empty_world, None) =
     (\<lparr>Diagnostics = [DiagError ''No snapshot found'' ''snapshot snap1 not found.''], Calls = []\<rparr>, None)"
    by (simp add: StorageVolumeSnapshotDataSource_Read_def getRestClient_def MakeAndReportError_def
        HasError_def empty_world_def config_of_def sample_snapshot_config_def Let_def)
  show ?thesis
    by (simp add: GetIPRoute_absent [OF g] s HasError_def)
qed

subsection \<open>Create with an empty record list\<close>

text \<open>
  C2, evaluated on the code. When the transport reports success (no error) and returns
  an empty record list, \<open>CreateIPRoute\<close> reads \<open>response.Records[0]\<close> with no check of
  the length: the call panics with an index out of range. It returns neither a
  classified error nor a record. This holds for every client, body and status code.
\<close>

theorem CreateIPRoute_empty_records_panics:
  "CreateIPRoute lib w (r\<lparr>CallCreateMethod := \<lambda>api q b. (st, \<lparr>Records = []\<rparr>, None)\<rparr>) body =
     Panic ''runtime error: index out of range [0] with length 0''"
  by (simp add: CreateIPRoute_def mapstructure_Decode_body_def Let_def)

subsection \<open>The version-gated projection\<close>

text \<open>
  C3. The field projection of the query that \<open>GetIPRoute\<close> hands to the transport is
  \<open>GetIPRoute_fields\<close> of the version. It holds \<open>metric\<close> exactly once if and only if
  the generation is 9 and the major version is greater than 10; otherwise it is exactly
  the base list \<open>destination\<close>, \<open>svm.name\<close>, \<open>gateway\<close>, \<open>scope\<close>.
\<close>

theorem GetIPRoute_projection_gated:
  "Calls (fst (GetIPRoute lib w r D s v)) = Calls w @ [CallGet api_routes (GetIPRoute_query D s v) None] \<and>
   (count_list (projection (GetIPRoute_query D s v)) ''metric'' = 1
      \<longleftrightarrow> Generation v = 9 \<and> 10 < Major v) \<and>
   (Generation v = 9 \<and> 10 < Major v \<longrightarrow>
      projection (GetIPRoute_query D s v) = [''destination'', ''svm.name'', ''gateway'', ''scope'', ''metric'']) \<and>
   (\<not> (Generation v = 9 \<and> 10 < Major v) \<longrightarrow>
      projection (GetIPRoute_query D s v) = [''destination'', ''svm.name'', ''gateway'', ''scope''])"
  by (simp add: GetIPRoute_calls GetIPRoute_query_exactly GetIPRoute_fields_exactly)

theorem GetIPRoute_projection_gated_witness:
  "Generation version_9_11 = 9 \<and> 10 < Major version_9_11 \<and>
   projection (GetIPRoute_query ''10.0.0.0'' [] version_9_11) =
     [''destination'', ''svm.name'', ''gateway'', ''scope'', ''metric''] \<and>
   count_list (projection (GetIPRoute_query ''10.0.0.0'' [] version_9_11)) ''metric'' = 1 \<and>
   \<not> (Generation version_9_8 = 9 \<and> 10 < Major version_9_8) \<and>
   projection (GetIPRoute_query ''10.0.0.0'' [] version_9_8) = [''destination'', ''svm.name'', ''gateway'', ''scope'']"
  using GetIPRoute_projection_gated [of sample_lib empty_world "stub_client (200, None, None) no_reply no_reply"
      "''10.0.0.0''" "[]" version_9_11]
    GetIPRoute_projection_gated [of sample_lib empty_world "stub_client (200, None, None) no_reply no_reply"
      "''10.0.0.0''" "[]" version_9_8]
  by (simp add: version_9_11_def version_9_8_def)

subsection \<open>Delete without an identifier\<close>

text \<open>
  C4. When the prior state has a null UUID, \<open>Delete\<close> of the IP route resource makes no
  call on the REST client (\<open>DeleteIPRoute\<close> is not invoked), leaves the state alone and
  ends with an error in the diagnostics. When the prior state was read without an error
  and the client of the connection profile was obtained, that error is the validation
  error \<open>UUID is null\<close>, appended to the diagnostics, and nothing else changes. (When
  one of these two steps fails, \<open>Delete\<close> has returned with the error of that step
  before it looks at the UUID.)
\<close>

theorem Delete_null_UUID_rejected:
  "IsNull (res_UUID data) \<longrightarrow>
     Calls (fst (IPRouteResource_Delete config (data, ds) (w, st))) = Calls w \<and>
     HasError (Diagnostics (fst (IPRouteResource_Delete config (data, ds) (w, st)))) \<and>
     snd (IPRouteResource_Delete config (data, ds) (w, st)) = st \<and>
     (\<not> HasError (Diagnostics w @ ds) \<and> providerConfig config (CxProfileName data) = Inr client \<longrightarrow>
        IPRouteResource_Delete config (data, ds) (w, st) =
          (w\<lparr>Diagnostics := Diagnostics w @ ds @ [DiagError ''UUID is null'' ''ip_interface UUID is null'']\<rparr>,
           st))"
proof (cases "HasError (Diagnostics w @ ds)")
  case True
  then show ?thesis
    by (simp add: IPRouteResource_Delete_def Let_def)
next
  case False
  show ?thesis
  proof (cases "providerConfig config (CxProfileName data)")
    case (Inl e)
    with False show ?thesis
      by (simp add: IPRouteResource_Delete_def getRestClient_def MakeAndReportError_def HasError_def Let_def)
  next
    case (Inr c)
    with False show ?thesis
      by (simp add: IPRouteResource_Delete_def getRestClient_def MakeAndReportError_def HasError_def Let_def)
  qed
qed

theorem Delete_null_UUID_rejected_witness:
  "IsNull (res_UUID sample_route) \<and>
   \<not> HasError (Diagnostics empty_world @ []) \<and>
   IPRouteResource_Delete (config_of (stub_client (200, None, None) no_reply no_reply)) (sample_route, [])
       (empty_world, Some sample_route) =
     (\<lparr>Diagnostics = [DiagError ''UUID is null'' ''ip_interface UUID is null''], Calls = []\<rparr>,
      Some sample_route)"
  using Delete_null_UUID_rejected [of sample_route "config_of (stub_client (200, None, None) no_reply no_reply)"
      "[]" empty_world "Some sample_route" "stub_client (200, None, None) no_reply no_reply"]
  by (simp add: sample_route_def config_of_def empty_world_def HasError_def)

text \<open>With a UUID that is not null, the same invocation does call the transport.\<close>

lemma Delete_with_UUID_calls_transport:
  assumes "\<not> IsNull (res_UUID data)" and "\<not> HasError (Diagnostics w @ ds)"
    and "providerConfig config (CxProfileName data) = Inr client"
  shows "Calls (fst (IPRouteResource_Delete config (data, ds) (w, st))) =
           Calls w @ [CallDelete (api_routes @ ''/'' @ ValueString (res_UUID data)) None None]"
  using assms
  by (simp add: IPRouteResource_Delete_def getRestClient_def DeleteIPRoute_def MakeAndReportError_def Let_def
      split: prod.splits option.splits)

subsection \<open>More than one record\<close>

text \<open>
  C5, against the cardinality resolver modelled from the specification. When the client's
  \<open>GetNilOrOneRecord\<close> resolves a transport answer that holds more than one record and
  no error, it yields the AmbiguousResult error; \<open>GetIPRoute\<close> then fails: it reports
  that error through the error handler, under the summary
  \<open>error reading /network/ip/routes info\<close>, and returns no record, so none of the
  records of the answer is returned.
\<close>

theorem GetIPRoute_ambiguous_fails:
  assumes "GetNilOrOneRecord r api_routes (GetIPRoute_query D s v) None =
             resolve_cardinality ambiguous (st, records, None)"
    and "1 < length records"
  shows "GetIPRoute lib w r D s v =
     (w\<lparr>Diagnostics := Diagnostics w @ [DiagError ''error reading /network/ip/routes info''
           (''error on GET /network/ip/routes: '' @ ambiguous @ '', statusCode '' @ fmt_d st)],
        Calls := Calls w @ [CallGet api_routes (GetIPRoute_query D s v) None]\<rparr>,
      None,
      Some \<lparr>summary = ''error reading /network/ip/routes info'',
            detail = ''error on GET /network/ip/routes: '' @ ambiguous @ '', statusCode '' @ fmt_d st\<rparr>)"
proof -
  from assms(2) obtain r1 r2 rs where "records = r1 # r2 # rs"
    by (cases records; cases "tl records") auto
  then have "resolve_cardinality ambiguous (st, records, None) = (st, None, Some ambiguous)"
    by (simp add: resolve_cardinality_def)
  with assms(1) show ?thesis
    by (simp add: GetIPRoute_error)
qed

theorem GetIPRoute_ambiguous_fails_witness:
  "1 < length [encode_IPRouteGet sample_get_record, encode_IPRouteGet (sample_get_record\<lparr>UUID := ''u2''\<rparr>)] \<and>
   GetIPRoute sample_lib empty_world
       \<lparr>GetNilOrOneRecord = (\<lambda>api q b. resolve_cardinality ''more than one record''
            (200, [encode_IPRouteGet sample_get_record, encode_IPRouteGet (sample_get_record\<lparr>UUID := ''u2''\<rparr>)],
             None)),
        CallCreateMethod = (\<lambda>api q b. no_reply), CallDeleteMethod = (\<lambda>api q b. no_reply)\<rparr>
       ''10.0.0.0'' [] version_9_11 =
     (\<lparr>Diagnostics = [DiagError ''error reading /network/ip/routes info''
           ''error on GET /network/ip/routes: more than one record, statusCode 200''],
       Calls = [CallGet ''/network/ip/routes''
           \<lparr>filters = [(''destination.address'', [''10.0.0.0'']), (''scope'', [''cluster''])],
            projection = [''destination'', ''svm.name'', ''gateway'', ''scope'', ''metric'']\<rparr> None]\<rparr>,
      None,
      Some \<lparr>summary = ''error reading /network/ip/routes info'',
            detail = ''error on GET /network/ip/routes: more than one record, statusCode 200''\<rparr>)"
proof -
  let ?recs = "[encode_IPRouteGet sample_get_record, encode_IPRouteGet (sample_get_record\<lparr>UUID := ''u2''\<rparr>)]"
  let ?r = "\<lparr>GetNilOrOneRecord = (\<lambda>api q b. resolve_cardinality ''more than one record'' (200, ?recs, None)),
        CallCreateMethod = (\<lambda>api q b. no_reply), CallDeleteMethod = (\<lambda>api q b. no_reply)\<rparr>"
  have g: "GetNilOrOneRecord ?r api_routes (GetIPRoute_query ''10.0.0.0'' [] version_9_11) None =
      resolve_cardinality ''more than one record'' (200, ?recs, None)"
    by simp
  have l: "1 < length ?recs"
    by simp
  have q: "GetIPRoute_query ''10.0.0.0'' [] version_9_11 =
      \<lparr>filters = [(''destination.address'', [''10.0.0.0'']), (''scope'', [''cluster''])],
       projection = [''destination'', ''svm.name'', ''gateway'', ''scope'', ''metric'']\<rparr>"
    by (simp add: GetIPRoute_query_exactly GetIPRoute_fields_exactly version_9_11_def)
  from GetIPRoute_ambiguous_fails [OF g l, of sample_lib empty_world]
  show ?thesis
    by (simp add: q fmt_d_200 empty_world_def api_routes_def)
qed

subsection \<open>Decoding what was encoded\<close>

text \<open>
  C6, against the decoder and the encoder modelled from the specification and the
  \<open>mapstructure\<close> tags of the source. Decoding the raw form of an IP route record gives
  the record back. Decoding the raw form of a request body (the encoding
  \<open>CreateIPRoute\<close> sends) gives the record with the fields of the body and the zero
  UUID, which the body does not have. A \<open>GetIPRoute\<close> whose transport returns exactly
  one record, the raw form of \<open>rec\<close>, returns \<open>rec\<close> and no error, and reports nothing.
\<close>

theorem decode_is_left_inverse_of_encode:
  "decode_IPRouteGet lib (encode_IPRouteGet rec) = Some rec \<and>
   decode_IPRouteGet lib (encode_IPRouteBody b) =
     Some \<lparr>Destination = body_Destination b, UUID = [], Gateway = body_Gateway b, Metric = body_Metric b,
           SVMName = body_SVM b\<rparr> \<and>
   GetIPRoute lib w (r\<lparr>GetNilOrOneRecord := \<lambda>api q b. (st, Some (encode_IPRouteGet rec), None)\<rparr>) D s v =
     (w\<lparr>Calls := Calls w @ [CallGet api_routes (GetIPRoute_query D s v) None]\<rparr>, Some rec, None)"
proof -
  let ?r = "r\<lparr>GetNilOrOneRecord := \<lambda>api q b. (st, Some (encode_IPRouteGet rec), None)\<rparr>"
  have "GetNilOrOneRecord ?r api_routes (GetIPRoute_query D s v) None = (st, Some (encode_IPRouteGet rec), None)"
    by simp
  then have "GetIPRoute lib w ?r D s v =
      (w\<lparr>Calls := Calls w @ [CallGet api_routes (GetIPRoute_query D s v) None]\<rparr>, Some rec, None)"
    by (rule GetIPRoute_decoded [OF _ decode_encode_get])
  then show ?thesis
    by (simp add: decode_encode_get decode_encode_body)
qed

theorem decode_is_left_inverse_of_encode_witness:
  "decode_IPRouteGet sample_lib
       [(''destination'', RawMap [(''address'', RawString ''10.0.0.0''), (''netmask'', RawString ''24'')]),
        (''uuid'', RawString ''u1''), (''gateway'', RawString ''10.0.0.1''), (''metric'', RawInt64 20),
        (''svm'', RawMap [(''name'', RawString ''svm1'')])] = Some sample_get_record \<and>
   decode_IPRouteGet sample_lib (encode_IPRouteBody sample_body) = Some (sample_get_record\<lparr>UUID := []\<rparr>) \<and>
   snd (GetIPRoute sample_lib empty_world
          ((stub_client (200, None, None) no_reply no_reply)
             \<lparr>GetNilOrOneRecord := \<lambda>api q b. (200, Some (encode_IPRouteGet sample_get_record), None)\<rparr>)
          ''10.0.0.0'' [] version_9_11) = (Some sample_get_record, None)"
proof -
  have e: "encode_IPRouteGet sample_get_record =
      [(''destination'', RawMap [(''address'', RawString ''10.0.0.0''), (''netmask'', RawString ''24'')]),
       (''uuid'', RawString ''u1''), (''gateway'', RawString ''10.0.0.1''), (''metric'', RawInt64 20),
       (''svm'', RawMap [(''name'', RawString ''svm1'')])]"
    by (simp add: encode_IPRouteGet_def encode_Destination_def encode_Vserver_def sample_get_record_def)
  have u: "sample_get_record\<lparr>UUID := []\<rparr> =
      \<lparr>Destination = body_Destination sample_body, UUID = [], Gateway = body_Gateway sample_body,
       Metric = body_Metric sample_body, SVMName = body_SVM sample_body\<rparr>"
    by (simp add: sample_get_record_def sample_body_def)
  from decode_is_left_inverse_of_encode [where lib = sample_lib and rec = sample_get_record
      and b = sample_body and w = empty_world and r = "stub_client (200, None, None) no_reply no_reply"
      and st = 200 and D = "''10.0.0.0''" and s = "[]" and v = version_9_11]
  show ?thesis
    by (simp add: e [symmetric] u)
qed

subsection \<open>The filters of the query\<close>

text \<open>
  C7. The query that \<open>GetIPRoute\<close> hands to the transport always sets
  \<open>destination.address\<close> to the given destination. With the empty virtual server name it
  carries \<open>scope = cluster\<close> and no \<open>svm.name\<close> filter; with a virtual server name it
  carries \<open>svm.name\<close> set to that name and \<open>scope = svm\<close>.
\<close>

theorem GetIPRoute_query_filters:
  "Calls (fst (GetIPRoute lib w r D s v)) = Calls w @ [CallGet api_routes (GetIPRoute_query D s v) None] \<and>
   map_of (filters (GetIPRoute_query D s v)) ''destination.address'' = Some [D] \<and>
   (s = [] \<longrightarrow>
      map_of (filters (GetIPRoute_query D s v)) ''scope'' = Some [''cluster''] \<and>
      map_of (filters (GetIPRoute_query D s v)) ''svm.name'' = None) \<and>
   (s \<noteq> [] \<longrightarrow>
      map_of (filters (GetIPRoute_query D s v)) ''svm.name'' = Some [s] \<and>
      map_of (filters (GetIPRoute_query D s v)) ''scope'' = Some [''svm''])"
  by (simp add: GetIPRoute_calls GetIPRoute_query_exactly)

theorem GetIPRoute_query_filters_witness:
  "filters (GetIPRoute_query ''10.0.0.0/24'' [] version_9_11) =
     [(''destination.address'', [''10.0.0.0/24'']), (''scope'', [''cluster''])] \<and>
   map_of (filters (GetIPRoute_query ''10.0.0.0/24'' [] version_9_11)) ''scope'' = Some [''cluster''] \<and>
   map_of (filters (GetIPRoute_query ''10.0.0.0/24'' [] version_9_11)) ''svm.name'' = None \<and>
   ''svm1'' \<noteq> [] \<and>
   map_of (filters (GetIPRoute_query ''10.0.0.0/24'' ''svm1'' version_9_11)) ''svm.name'' = Some [''svm1''] \<and>
   map_of (filters (GetIPRoute_query ''10.0.0.0/24'' ''svm1'' version_9_11)) ''scope'' = Some [''svm'']"
  using GetIPRoute_query_filters [of sample_lib empty_world "stub_client (200, None, None) no_reply no_reply"
      "''10.0.0.0/24''" "[]" version_9_11]
    GetIPRoute_query_filters [of sample_lib empty_world "stub_client (200, None, None) no_reply no_reply"
      "''10.0.0.0/24''" "''svm1''" version_9_11]
  by (simp add: GetIPRoute_query_exactly)

subsection \<open>The detail of a transport failure\<close>

lemma transport_detail_status: "sublist (fmt_d st) (transport_detail verb e st)"
proof -
  have "transport_detail verb e st =
      (''error on '' @ verb @ '' '' @ api_routes @ '': '' @ e @ '', statusCode '') @ fmt_d st"
    by (simp add: transport_detail_def)
  then show ?thesis
    by (simp only: sublist_append_leftI)
qed

lemma transport_detail_api: "sublist api_routes (transport_detail verb e st)"
proof -
  have "transport_detail verb e st =
      (''error on '' @ verb @ '' '') @ api_routes @ ('': '' @ e @ '', statusCode '' @ fmt_d st)"
    by (simp add: transport_detail_def)
  then show ?thesis
    by (simp only: sublist_appendI)
qed

text \<open>
  C8, as the code has it. Every failing transport interaction of \<open>GetIPRoute\<close> (an error
  of the transport, or no record and no error), \<open>CreateIPRoute\<close> and \<open>DeleteIPRoute\<close>
  hands the error handler a fixed summary, one per operation, and a detail that holds
  the status code in decimal and the API path \<open>/network/ip/routes\<close>. For \<open>GetIPRoute\<close>
  and \<open>CreateIPRoute\<close> that is the path of the failed request. \<open>DeleteIPRoute\<close> sends its
  request to \<open>/network/ip/routes/\<close> followed by the uuid, and its detail names
  \<open>/network/ip/routes\<close>.
\<close>

theorem transport_failure_detail:
  "(GetNilOrOneRecord r api_routes (GetIPRoute_query D s v) None = (st, resp, Some e) \<longrightarrow>
      GetIPRoute lib w r D s v =
        (w\<lparr>Diagnostics := Diagnostics w @
              [DiagError ''error reading /network/ip/routes info'' (transport_detail ''GET'' e st)],
           Calls := Calls w @ [CallGet api_routes (GetIPRoute_query D s v) None]\<rparr>,
         None,
         Some \<lparr>summary = ''error reading /network/ip/routes info'', detail = transport_detail ''GET'' e st\<rparr>)) \<and>
   (GetNilOrOneRecord r api_routes (GetIPRoute_query D s v) None = (st, None, None) \<longrightarrow>
      GetIPRoute lib w r D s v =
        (w\<lparr>Diagnostics := Diagnostics w @
              [DiagError ''error reading /network/ip/routes info''
                 (transport_detail ''GET'' ''no response for GET /network/ip/routes'' st)],
           Calls := Calls w @ [CallGet api_routes (GetIPRoute_query D s v) None]\<rparr>,
         None,
         Some \<lparr>summary = ''error reading /network/ip/routes info'',
               detail = transport_detail ''GET'' ''no response for GET /network/ip/routes'' st\<rparr>)) \<and>
   (CallCreateMethod r api_routes (Query_Add NewQuery ''return_records'' ''true'') (encode_IPRouteBody body)
        = (st, cresp, Some e) \<longrightarrow>
      CreateIPRoute lib w r body = Return
        (w\<lparr>Diagnostics := Diagnostics w @
              [DiagError ''error creating /network/ip/routes'' (transport_detail ''POST'' e st)],
           Calls := Calls w @ [CallCreate api_routes (Query_Add NewQuery ''return_records'' ''true'')
                                 (encode_IPRouteBody body)]\<rparr>,
         None,
         Some \<lparr>summary = ''error creating /network/ip/routes'', detail = transport_detail ''POST'' e st\<rparr>)) \<and>
   (CallDeleteMethod r (api_routes @ ''/'' @ uuid) None None = (st, cresp, Some e) \<longrightarrow>
      DeleteIPRoute w r uuid =
        (w\<lparr>Diagnostics := Diagnostics w @
              [DiagError ''error deleting /network/ip/routes'' (transport_detail ''DELETE'' e st)],
           Calls := Calls w @ [CallDelete (api_routes @ ''/'' @ uuid) None None]\<rparr>,
         Some \<lparr>summary = ''error deleting /network/ip/routes'', detail = transport_detail ''DELETE'' e st\<rparr>)) \<and>
   sublist (fmt_d st) (transport_detail verb e st) \<and>
   sublist ''/network/ip/routes'' (transport_detail verb e st)"
proof -
  have get: "GetNilOrOneRecord r api_routes (GetIPRoute_query D s v) None = (st, resp, Some e) \<Longrightarrow>
      GetIPRoute lib w r D s v =
        (w\<lparr>Diagnostics := Diagnostics w @
              [DiagError ''error reading /network/ip/routes info'' (transport_detail ''GET'' e st)],
           Calls := Calls w @ [CallGet api_routes (GetIPRoute_query D s v) None]\<rparr>,
         None,
         Some \<lparr>summary = ''error reading /network/ip/routes info'', detail = transport_detail ''GET'' e st\<rparr>)"
    by (simp add: GetIPRoute_error transport_detail_def api_routes_def)
  have absent: "GetNilOrOneRecord r api_routes (GetIPRoute_query D s v) None = (st, None, None) \<Longrightarrow>
      GetIPRoute lib w r D s v =
        (w\<lparr>Diagnostics := Diagnostics w @
              [DiagError ''error reading /network/ip/routes info''
                 (transport_detail ''GET'' ''no response for GET /network/ip/routes'' st)],
           Calls := Calls w @ [CallGet api_routes (GetIPRoute_query D s v) None]\<rparr>,
         None,
         Some \<lparr>summary = ''error reading /network/ip/routes info'',
               detail = transport_detail ''GET'' ''no response for GET /network/ip/routes'' st\<rparr>)"
    by (simp add: GetIPRoute_absent transport_detail_def api_routes_def)
  have create: "CallCreateMethod r api_routes (Query_Add NewQuery ''return_records'' ''true'')
        (encode_IPRouteBody body) = (st, cresp, Some e) \<Longrightarrow>
      CreateIPRoute lib w r body = Return
        (w\<lparr>Diagnostics := Diagnostics w @
              [DiagError ''error creating /network/ip/routes'' (transport_detail ''POST'' e st)],
           Calls := Calls w @ [CallCreate api_routes (Query_Add NewQuery ''return_records'' ''true'')
                                 (encode_IPRouteBody body)]\<rparr>,
         None,
         Some \<lparr>summary = ''error creating /network/ip/routes'', detail = transport_detail ''POST'' e st\<rparr>)"
    by (simp add: CreateIPRoute_error transport_detail_def api_routes_def)
  have delete: "CallDeleteMethod r (api_routes @ ''/'' @ uuid) None None = (st, cresp, Some e) \<Longrightarrow>
      DeleteIPRoute w r uuid =
        (w\<lparr>Diagnostics := Diagnostics w @
              [DiagError ''error deleting /network/ip/routes'' (transport_detail ''DELETE'' e st)],
           Calls := Calls w @ [CallDelete (api_routes @ ''/'' @ uuid) None None]\<rparr>,
         Some \<lparr>summary = ''error deleting /network/ip/routes'', detail = transport_detail ''DELETE'' e st\<rparr>)"
    by (simp add: DeleteIPRoute_error transport_detail_def api_routes_def)
  have api: "sublist ''/network/ip/routes'' (transport_detail verb e st)"
    using transport_detail_api [of verb e st] by (simp add: api_routes_def)
  from get absent create delete api transport_detail_status [of st verb e]
  show ?thesis by blast
qed

theorem transport_failure_detail_witness:
  "snd (GetIPRoute sample_lib empty_world
          (stub_client (500, None, Some ''boom'') (500, \<lparr>Records = []\<rparr>, Some ''boom'')
             (500, \<lparr>Records = []\<rparr>, Some ''boom'')) ''10.0.0.0'' [] version_9_11) =
     (None, Some \<lparr>summary = ''error reading /network/ip/routes info'',
                  detail = ''error on GET /network/ip/routes: boom, statusCode 500''\<rparr>) \<and>
   snd (GetIPRoute sample_lib empty_world (stub_client (200, None, None) no_reply no_reply)
          ''10.0.0.0'' [] version_9_11) =
     (None, Some \<lparr>summary = ''error reading /network/ip/routes info'',
                  detail = ''error on GET /network/ip/routes: no response for GET /network/ip/routes, statusCode 200''\<rparr>) \<and>
   (\<exists>w'. CreateIPRoute sample_lib empty_world
          (stub_client (500, None, Some ''boom'') (500, \<lparr>Records = []\<rparr>, Some ''boom'')
             (500, \<lparr>Records = []\<rparr>, Some ''boom'')) sample_body =
     Return (w', None, Some \<lparr>summary = ''error creating /network/ip/routes'',
                             detail = ''error on POST /network/ip/routes: boom, statusCode 500''\<rparr>)) \<and>
   DeleteIPRoute empty_world
       (stub_client (500, None, Some ''boom'') (500, \<lparr>Records = []\<rparr>, Some ''boom'')
          (500, \<lparr>Records = []\<rparr>, Some ''boom'')) ''u1'' =
     (\<lparr>Diagnostics = [DiagError ''error deleting /network/ip/routes''
                         ''error on DELETE /network/ip/routes: boom, statusCode 500''],
       Calls = [CallDelete ''/network/ip/routes/u1'' None None]\<rparr>,
      Some \<lparr>summary = ''error deleting /network/ip/routes'',
            detail = ''error on DELETE /network/ip/routes: boom, statusCode 500''\<rparr>) \<and>
   sublist ''500'' ''error on DELETE /network/ip/routes: boom, statusCode 500'' \<and>
   sublist ''/network/ip/routes'' ''error on DELETE /network/ip/routes: boom, statusCode 500''"
proof -
  let ?r = "stub_client (500, None, Some ''boom'') (500, \<lparr>Records = []\<rparr>, Some ''boom'')
              (500, \<lparr>Records = []\<rparr>, Some ''boom'')"
  let ?absent = "stub_client (200, None, None) no_reply no_reply"
  have g: "GetNilOrOneRecord ?r api_routes (GetIPRoute_query ''10.0.0.0'' [] version_9_11) None
             = (500, None, Some ''boom'')"
    by (simp add: stub_client_def)
  have g0: "GetNilOrOneRecord ?absent api_routes (GetIPRoute_query ''10.0.0.0'' [] version_9_11) None
             = (200, None, None)"
    by (simp add: stub_client_def)
  have c: "CallCreateMethod ?r api_routes (Query_Add NewQuery ''return_records'' ''true'')
             (encode_IPRouteBody sample_body) = (500, \<lparr>Records = []\<rparr>, Some ''boom'')"
    by (simp add: stub_client_def)
  have d: "CallDeleteMethod ?r (api_routes @ ''/'' @ ''u1'') None None = (500, \<lparr>Records = []\<rparr>, Some ''boom'')"
    by (simp add: stub_client_def)
  have t: "transport_detail verb e 500 = ''error on '' @ verb @ '' /network/ip/routes: '' @ e @ '', statusCode 500''"
    for verb e
    by (simp add: transport_detail_def api_routes_def fmt_d_500)
  have t0: "transport_detail ''GET'' ''no response for GET /network/ip/routes'' 200 =
      ''error on GET /network/ip/routes: no response for GET /network/ip/routes, statusCode 200''"
    by (simp add: transport_detail_def api_routes_def fmt_d_200)
  from transport_failure_detail [of ?r "''10.0.0.0''" "[]" version_9_11 500 None "''boom''" sample_lib
      empty_world sample_body "\<lparr>Records = []\<rparr>" "''u1''" "''DELETE''"]
    transport_failure_detail [of ?absent "''10.0.0.0''" "[]" version_9_11 200 None "''boom''" sample_lib
      empty_world sample_body "\<lparr>Records = []\<rparr>" "''u1''" "''DELETE''"]
    g g0 c d
  show ?thesis
    by (simp add: t t0 empty_world_def api_routes_def fmt_d_500)
qed

text \<open>
  C8 as stated fails for \<open>DeleteIPRoute\<close>: the failed request went to
  \<open>/network/ip/routes/u1\<close>, and the detail handed to the error handler does not contain
  that path.
\<close>

theorem delete_detail_path_counterexample:
  "Calls (fst (DeleteIPRoute empty_world
       (stub_client (200, None, None) no_reply (500, \<lparr>Records = []\<rparr>, Some ''boom'')) ''u1'')) =
     [CallDelete ''/network/ip/routes/u1'' None None] \<and>
   snd (DeleteIPRoute empty_world
       (stub_client (200, None, None) no_reply (500, \<lparr>Records = []\<rparr>, Some ''boom'')) ''u1'') =
     Some \<lparr>summary = ''error deleting /network/ip/routes'',
           detail = ''error on DELETE /network/ip/routes: boom, statusCode 500''\<rparr> \<and>
   \<not> sublist ''/network/ip/routes/u1'' ''error on DELETE /network/ip/routes: boom, statusCode 500''"
proof -
  let ?r = "stub_client (200, None, None) no_reply (500, \<lparr>Records = []\<rparr>, Some ''boom'')"
  have d: "CallDeleteMethod ?r (api_routes @ ''/'' @ ''u1'') None None = (500, \<lparr>Records = []\<rparr>, Some ''boom'')"
    by (simp add: stub_client_def)
  have n: "\<not> sublist ''/network/ip/routes/u1'' ''error on DELETE /network/ip/routes: boom, statusCode 500''"
    by code_simp
  show ?thesis
    using n by (simp add: DeleteIPRoute_error [OF d] empty_world_def api_routes_def fmt_d_500)
qed

subsection \<open>Update\<close>

text \<open>
  C9. \<open>Update\<close> of the IP route resource makes no call on the REST client, whatever the
  invocation. When the plan was read without an error, the resulting state is the
  planned data, unchanged. (When reading the plan reports an error there is no planned
  data to store: \<open>Update\<close> returns with that error and leaves the state as it was.)
\<close>

theorem Update_stores_plan_without_call:
  "Calls (fst (IPRouteResource_Update (data, ds) (w, st))) = Calls w \<and>
   (\<not> HasError (Diagnostics w @ ds) \<longrightarrow>
      IPRouteResource_Update (data, ds) (w, st) = (w\<lparr>Diagnostics := Diagnostics w @ ds\<rparr>, Some data)) \<and>
   (HasError (Diagnostics w @ ds) \<longrightarrow>
      IPRouteResource_Update (data, ds) (w, st) = (w\<lparr>Diagnostics := Diagnostics w @ ds\<rparr>, st))"
  by (simp add: IPRouteResource_Update_def Let_def)

theorem Update_stores_plan_without_call_witness:
  "\<not> HasError (Diagnostics empty_world @ []) \<and>
   IPRouteResource_Update (sample_route\<lparr>res_Gateway := StringValue ''10.0.0.254''\<rparr>, [])
       (empty_world, Some sample_route) =
     (empty_world, Some (sample_route\<lparr>res_Gateway := StringValue ''10.0.0.254''\<rparr>)) \<and>
   HasError (Diagnostics empty_world @ [DiagError ''Value Conversion Error'' []]) \<and>
   IPRouteResource_Update (sample_route\<lparr>res_Gateway := StringValue ''10.0.0.254''\<rparr>,
       [DiagError ''Value Conversion Error'' []]) (empty_world, Some sample_route) =
     (\<lparr>Diagnostics = [DiagError ''Value Conversion Error'' []], Calls = []\<rparr>, Some sample_route)"
  using Update_stores_plan_without_call [of "sample_route\<lparr>res_Gateway := StringValue ''10.0.0.254''\<rparr>" "[]"
      empty_world "Some sample_route"]
    Update_stores_plan_without_call [of "sample_route\<lparr>res_Gateway := StringValue ''10.0.0.254''\<rparr>"
      "[DiagError ''Value Conversion Error'' []]" empty_world "Some sample_route"]
  by (simp add: empty_world_def HasError_def)

subsection \<open>Read of the resource\<close>

text \<open>
  C10. A successful \<open>Read\<close> of the IP route resource (the prior state was read, the
  client and the cluster were obtained, and \<open>GetIPRoute\<close> returned a record) sets the
  state to the prior model with \<open>Destination\<close>, \<open>Gateway\<close>, \<open>Metric\<close> and \<open>SVMName\<close>
  overwritten from the record; \<open>UUID\<close> and \<open>CxProfileName\<close> are those of the prior
  state, and the UUID of the record is not read. Whatever way \<open>Read\<close> returns, the state
  is either left as it was or holds the UUID and the profile name of the prior state.
\<close>

theorem Read_overwrites_route_fields_only:
  "(\<not> HasError (Diagnostics w @ ds) \<and> providerConfig config (CxProfileName data) = Inr client \<and>
    GetCluster (w\<lparr>Diagnostics := Diagnostics w @ ds\<rparr>) client = (w2, Some cluster) \<and>
    res_Destination data = Some dest \<and>
    GetIPRoute lib w2 client (ValueString (res_Address dest)) (ValueString (res_SVMName data))
      (Version cluster) = (w3, Some restInfo, None) \<longrightarrow>
      IPRouteResource_Read GetCluster lib config (data, ds) (w, st) =
        Return (w3, Some \<lparr>CxProfileName = CxProfileName data,
                           res_SVMName = StringValue (Name (SVMName restInfo)),
                           res_Destination = Some \<lparr>res_Address = StringValue (Address (Destination restInfo)),
                                                   res_Netmask = StringValue (Netmask (Destination restInfo))\<rparr>,
                           res_Gateway = StringValue (Gateway restInfo),
                           res_Metric = Int64Value (Metric restInfo),
                           res_UUID = res_UUID data\<rparr>)) \<and>
   (IPRouteResource_Read GetCluster lib config (data, ds) (w, st) = Return (w', st') \<longrightarrow>
      st' = st \<or>
      (\<exists>m. st' = Some m \<and> res_UUID m = res_UUID data \<and> CxProfileName m = CxProfileName data))"
proof (intro conjI impI)
  assume "\<not> HasError (Diagnostics w @ ds) \<and> providerConfig config (CxProfileName data) = Inr client \<and>
    GetCluster (w\<lparr>Diagnostics := Diagnostics w @ ds\<rparr>) client = (w2, Some cluster) \<and>
    res_Destination data = Some dest \<and>
    GetIPRoute lib w2 client (ValueString (res_Address dest)) (ValueString (res_SVMName data))
      (Version cluster) = (w3, Some restInfo, None)"
  then show "IPRouteResource_Read GetCluster lib config (data, ds) (w, st) =
        Return (w3, Some \<lparr>CxProfileName = CxProfileName data,
                           res_SVMName = StringValue (Name (SVMName restInfo)),
                           res_Destination = Some \<lparr>res_Address = StringValue (Address (Destination restInfo)),
                                                   res_Netmask = StringValue (Netmask (Destination restInfo))\<rparr>,
                           res_Gateway = StringValue (Gateway restInfo),
                           res_Metric = Int64Value (Metric restInfo),
                           res_UUID = res_UUID data\<rparr>)"
    by (simp add: Read_success)
next
  assume "IPRouteResource_Read GetCluster lib config (data, ds) (w, st) = Return (w', st')"
  then show "st' = st \<or>
      (\<exists>m. st' = Some m \<and> res_UUID m = res_UUID data \<and> CxProfileName m = CxProfileName data)"
    by (rule Read_frame)
qed

theorem Read_overwrites_route_fields_only_witness:
  "IPRouteResource_Read cluster_9_11 sample_lib
       (config_of (stub_client (200, Some (encode_IPRouteGet sample_get_record), None) no_reply no_reply))
       (sample_route\<lparr>res_UUID := StringValue ''u0''\<rparr>, []) (empty_world, None) =
     Return (\<lparr>Diagnostics = [],
              Calls = [CallGet ''/network/ip/routes''
                 \<lparr>filters = [(''destination.address'', [''10.0.0.0'']), (''scope'', [''cluster''])],
                  projection = [''destination'', ''svm.name'', ''gateway'', ''scope'', ''metric'']\<rparr> None]\<rparr>,
             Some \<lparr>CxProfileName = StringValue ''cluster1'', res_SVMName = StringValue ''svm1'',
                   res_Destination = Some \<lparr>res_Address = StringValue ''10.0.0.0'', res_Netmask = StringValue ''24''\<rparr>,
                   res_Gateway = StringValue ''10.0.0.1'', res_Metric = Int64Value 20,
                   res_UUID = StringValue ''u0''\<rparr>)"
proof -
  let ?r = "stub_client (200, Some (encode_IPRouteGet sample_get_record), None) no_reply no_reply"
  let ?data = "sample_route\<lparr>res_UUID := StringValue ''u0''\<rparr>"
  let ?dest = "\<lparr>res_Address = StringValue ''10.0.0.0'', res_Netmask = StringValue ''24''\<rparr>"
  let ?w3 = "empty_world\<lparr>Calls := Calls empty_world @
      [CallGet api_routes (GetIPRoute_query ''10.0.0.0'' [] version_9_11) None]\<rparr>"
  have g: "GetNilOrOneRecord ?r api_routes (GetIPRoute_query ''10.0.0.0'' [] version_9_11) None =
      (200, Some (encode_IPRouteGet sample_get_record), None)"
    by (simp add: stub_client_def)
  have get: "GetIPRoute sample_lib empty_world ?r ''10.0.0.0'' [] version_9_11 = (?w3, Some sample_get_record, None)"
    by (rule GetIPRoute_decoded [OF g decode_encode_get])
  have h: "\<not> HasError (Diagnostics empty_world @ []) \<and>
      providerConfig (config_of ?r) (CxProfileName ?data) = Inr ?r \<and>
      cluster_9_11 (empty_world\<lparr>Diagnostics := Diagnostics empty_world @ []\<rparr>) ?r =
        (empty_world, Some \<lparr>Version = version_9_11\<rparr>) \<and>
      res_Destination ?data = Some ?dest \<and>
      GetIPRoute sample_lib empty_world ?r (ValueString (res_Address ?dest)) (ValueString (res_SVMName ?data))
        (Version \<lparr>Version = version_9_11\<rparr>) = (?w3, Some sample_get_record, None)"
    using get by (simp add: HasError_def empty_world_def config_of_def cluster_9_11_def sample_route_def)
  have q: "GetIPRoute_query ''10.0.0.0'' [] version_9_11 =
      \<lparr>filters = [(''destination.address'', [''10.0.0.0'']), (''scope'', [''cluster''])],
       projection = [''destination'', ''svm.name'', ''gateway'', ''scope'', ''metric'']\<rparr>"
    by (simp add: GetIPRoute_query_exactly GetIPRoute_fields_exactly version_9_11_def)
  from Read_overwrites_route_fields_only [of empty_world "[]" "config_of ?r" ?data ?r cluster_9_11
      empty_world "\<lparr>Version = version_9_11\<rparr>" ?dest sample_lib ?w3 sample_get_record None] h
  show ?thesis
    by (simp add: q empty_world_def api_routes_def sample_route_def sample_get_record_def)
qed

end
